theory Spec2Isabelle
  imports Main "HOL-Library.Word"
begin

unbundle bit_operations_syntax

section \<open>JWKS cache and RS256 JWT verification (package ujwt)\<close>

text \<open>
  A shallow embedding of the package \<^verbatim>\<open>ujwt\<close> (JWKS cache, RS256 assertion, claims
  check) and of \<^verbatim>\<open>ucheck.ContainsAny\<close>. Go strings are byte sequences and are
  modelled as \<^typ>\<open>string\<close>; \<^verbatim>\<open>[]byte\<close> is a list of 8-bit words. The standard
  library (base64, JSON, SHA-256, the RSA check) and the HTTP client are collaborators:
  the functions below take them as arguments, so that every theorem holds for whatever
  they compute.
\<close>

subsection \<open>Bytes, strings and errors\<close>

type_synonym byte = "8 word"

text \<open>The conversion \<^verbatim>\<open>[]byte(s)\<close> of a Go string.\<close>

definition bytes_of :: "string \<Rightarrow> byte list" where
  "bytes_of s = map of_char s"

text \<open>
  \<^verbatim>\<open>strings.Split(s, sep)\<close> for a separator of one byte: the segments between the
  occurrences of the separator, empty segments included.
\<close>

fun Split :: "string \<Rightarrow> char \<Rightarrow> string list" where
  "Split [] sep = [[]]"
| "Split (c # cs) sep =
     (if c = sep then [] # Split cs sep
      else (case Split cs sep of
              [] \<Rightarrow> [[c]]
            | p # ps \<Rightarrow> (c # p) # ps))"

text \<open>\<^verbatim>\<open>strings.Join(elems, sep)\<close>.\<close>

fun Join :: "string list \<Rightarrow> string \<Rightarrow> string" where
  "Join [] sep = []"
| "Join [x] sep = x"
| "Join (x # y # ys) sep = x @ sep @ Join (y # ys) sep"

text \<open>The decimal digits of a number, as \<^verbatim>\<open>%d\<close> prints a non-negative integer.\<close>

definition digit :: "nat \<Rightarrow> char" where
  "digit d = ''0123456789'' ! d"

function Itoa :: "nat \<Rightarrow> string" where
  "Itoa n =
     (if n < 10 then [digit n]
      else Itoa (n div 10) @ [digit (n mod 10)])"
  by pat_completeness auto
termination
  by (relation "measure (\<lambda>n. n)") auto

declare Itoa.simps [simp del]

text \<open>
  Go error values, by where they are made: \<open>New\<close> is \<^verbatim>\<open>errors.New\<close> and
  \<^verbatim>\<open>fmt.Errorf\<close> in this package, \<open>Lib\<close> an error returned by a library call
  (base64, JSON, the HTTP client) with its message, \<open>Unautorized\<close> and \<open>Forbidden\<close>
  the string types of package \<^verbatim>\<open>userv\<close> (401 and 403).
\<close>

datatype error =
    New string
  | Lib string
  | Unautorized string
  | Forbidden string

text \<open>The method \<^verbatim>\<open>Error()\<close>.\<close>

fun Error :: "error \<Rightarrow> string" where
  "Error (New m) = m"
| "Error (Lib m) = m"
| "Error (Unautorized m) = m"
| "Error (Forbidden m) = m"

text \<open>
  What a call of a Go function gives: a value, an error, or a run-time panic
  (a nil pointer dereference, an index out of range).
\<close>

datatype 'a res = Ok 'a | Fail error | Panic

subsection \<open>Time\<close>

text \<open>
  An instant of package \<^verbatim>\<open>time\<close> as \<^verbatim>\<open>Before\<close> reads it: the seconds since
  1 January of year 1, a signed 64-bit number (what the library's \<^verbatim>\<open>sec()\<close> gives
  for a time without monotonic reading), and the nanoseconds within the second.
  \<^verbatim>\<open>UTC()\<close> changes the location only and drops the monotonic reading of
  \<^verbatim>\<open>time.Now()\<close>; it keeps the seconds and nanoseconds and is the identity here.
\<close>

type_synonym int64 = "64 word"

record time =
  t_sec :: int64
  t_nsec :: nat

text \<open>The seconds from 1 January of year 1 to the Unix epoch.\<close>

definition unixToInternal :: int64 where
  "unixToInternal = 62135596800"

text \<open>
  \<^verbatim>\<open>time.Unix(sec, nsec)\<close> for a non-negative \<open>nsec\<close>: whole seconds in
  \<open>nsec\<close> are carried over, and the offset of the epoch is added in 64-bit
  arithmetic, which wraps around.
\<close>

definition Unix :: "int64 \<Rightarrow> nat \<Rightarrow> time" where
  "Unix sec nsec =
     \<lparr>t_sec = sec + of_nat (nsec div 1000000000) + unixToInternal,
      t_nsec = nsec mod 1000000000\<rparr>"

text \<open>\<^verbatim>\<open>t.Before(u)\<close>: the seconds are compared as signed numbers.\<close>

definition Before :: "time \<Rightarrow> time \<Rightarrow> bool" where
  "Before t u =
     (sint (t_sec t) < sint (t_sec u) \<or> (t_sec t = t_sec u \<and> t_nsec t < t_nsec u))"

subsection \<open>ucheck.ContainsAny\<close>

definition Contains :: "'a list \<Rightarrow> 'a \<Rightarrow> bool" where
  "Contains s v = (v \<in> set s)"

text \<open>The first element of the query that the set contains, or nil.\<close>

fun ContainsAny :: "'a list \<Rightarrow> 'a list \<Rightarrow> 'a option" where
  "ContainsAny st [] = None"
| "ContainsAny st (q # qs) = (if Contains st q then Some q else ContainsAny st qs)"

subsection \<open>Claims check\<close>

record JWTClaims =
  Iss :: string
  TokenUse :: string
  Exp :: int64
  ClientID :: string
  Roles :: "string list"
  Aud :: string
  Email :: string

definition TokenUseAccess :: string where
  "TokenUseAccess = ''access''"

definition TokenUseID :: string where
  "TokenUseID = ''id''"

text \<open>The loop over the role groups of \<^verbatim>\<open>jwtClaimsCheck\<close>: [||] && [||].\<close>

fun roles_loop :: "string list \<Rightarrow> string list list \<Rightarrow> error option" where
  "roles_loop rs [] = None"
| "roles_loop rs (query # rest) =
     (case ContainsAny rs query of
        None \<Rightarrow>
          Some (Forbidden (Error (New
            (''missing role: at least one of '' @ Join query '', '' @ '' is required''))))
      | Some found \<Rightarrow> roles_loop rs rest)"

text \<open>
  \<^verbatim>\<open>jwtClaimsCheck\<close>; the first argument is the reading of \<^verbatim>\<open>time.Now()\<close>.
  The result is the error returned, \<open>None\<close> for nil.
\<close>

definition jwtClaimsCheck ::
  "time \<Rightarrow> JWTClaims \<Rightarrow> string \<Rightarrow> string \<Rightarrow> string list \<Rightarrow> string list list \<Rightarrow> error option"
where
  "jwtClaimsCheck now claims issuer tokenUse clientIDs roles =
     (if Iss claims \<noteq> issuer then Some (Unautorized ''invalid JWT issuer'')
      else if TokenUse claims \<noteq> tokenUse then Some (Unautorized ''invalid JWT use'')
      else if Before (Unix (Exp claims) 0) now then Some (Unautorized ''expired JWT'')
      else
        (case (if tokenUse = TokenUseAccess then
                 (if \<not> Contains clientIDs (ClientID claims)
                  then Some (Unautorized ''invalid client ID'') else None)
               else if tokenUse = TokenUseID then
                 (if \<not> Contains clientIDs (Aud claims)
                  then Some (Unautorized ''invalid client ID'') else None)
               else Some (Unautorized ''invalid token use''))
         of
           Some err \<Rightarrow> Some err
         | None \<Rightarrow> roles_loop (Roles claims) roles))"

subsection \<open>Collaborators\<close>

record PublicKey =
  pub_N :: nat
  pub_E :: int

record jwtHeader =
  head_Alg :: string
  head_Typ :: string
  head_Kid :: string

text \<open>
  The library calls of the package. A decoder or parser gives \<open>Inl\<close> of the error's
  message or \<open>Inr\<close> of the value; \<open>VerifyPKCS1v15\<close> is true when the library
  returns a nil error for the key, the SHA-256 digest and the signature.
\<close>

record lib =
  DecodeString :: "string \<Rightarrow> string + byte list"
  UnmarshalHeader :: "byte list \<Rightarrow> string + jwtHeader"
  UnmarshalClaims :: "byte list \<Rightarrow> string + JWTClaims"
  Sum256 :: "byte list \<Rightarrow> byte list"
  VerifyPKCS1v15 :: "PublicKey \<Rightarrow> byte list \<Rightarrow> byte list \<Rightarrow> bool"

subsection \<open>Key codec\<close>

record jwkt =
  jwk_Kid :: string
  jwk_Kty :: string
  jwk_Alg :: string
  jwk_N :: string
  jwk_E :: string

text \<open>
  The key set as JSON decoding leaves it: \<^verbatim>\<open>Keys\<close> is a slice of pointers, and a
  \<^verbatim>\<open>null\<close> element of the JSON array is a nil pointer, \<open>None\<close> here.
\<close>

record jwkst =
  Keys :: "jwkt option list"

text \<open>
  \<^verbatim>\<open>binary.BigEndian.Uint32\<close>: reads the first four bytes, and panics (index out
  of range) on a shorter slice.
\<close>

fun Uint32 :: "byte list \<Rightarrow> 32 word option" where
  "Uint32 (b0 # b1 # b2 # b3 # rest) =
     Some (ucast b3 OR push_bit 8 (ucast b2) OR push_bit 16 (ucast b1) OR push_bit 24 (ucast b0))"
| "Uint32 bs = None"

text \<open>\<^verbatim>\<open>new(big.Int).SetBytes\<close>: the big-endian unsigned integer of the bytes.\<close>

definition SetBytes :: "byte list \<Rightarrow> nat" where
  "SetBytes bs = foldl (\<lambda>acc b. 256 * acc + unat b) 0 bs"

text \<open>
  \<^verbatim>\<open>(*big.Int).Uint64\<close>: the low 64 bits of the value (the library documents the
  result as undefined when the value does not fit, and returns its low words).
\<close>

definition Uint64 :: "nat \<Rightarrow> 64 word" where
  "Uint64 x = of_nat x"

definition jwkToRSA :: "lib \<Rightarrow> jwkt \<Rightarrow> PublicKey res" where
  "jwkToRSA lb jwk =
     (case DecodeString lb (jwk_N jwk) of
        Inl m \<Rightarrow> Fail (Lib m)
      | Inr nb \<Rightarrow>
          (case DecodeString lb (jwk_E jwk) of
             Inl m \<Rightarrow> Fail (Lib m)
           | Inr eb \<Rightarrow>
               (case (if length eb = 3 then map_option ucast (Uint32 (0 # eb))
                      else if length eb = 4 then map_option ucast (Uint32 eb)
                      else Some (Uint64 (SetBytes eb)))
                of
                  None \<Rightarrow> Panic
                | Some e64 \<Rightarrow>
                    if e64 > ucast (NOT (0 :: 32 word)) then Fail (New ''JWK exponent too large'')
                    else Ok \<lparr>pub_N = SetBytes nb, pub_E = uint e64\<rparr>)))"

subsection \<open>JWKS cache\<close>

text \<open>
  The cache holds the mapping from key id to public key. The lock is left out (the
  model is sequential), and the HTTP client is an argument of \<open>Fetch\<close>. The field
  \<open>calls\<close> is not in the source: it records the calls of the cache's methods, in
  order, so that theorems can count them.
\<close>

datatype call = KeyCall string | FetchCall

record JWKS =
  keys :: "string \<rightharpoonup> PublicKey"
  calls :: "call list"

definition NewJWKS :: JWKS where
  "NewJWKS = \<lparr>keys = Map.empty, calls = []\<rparr>"

text \<open>
  What \<^verbatim>\<open>httpc.GET\<close> with \<^verbatim>\<open>ResJSON(&jwks)\<close> gives: \<open>Inl\<close> of the message of
  the error returned, or \<open>Inr\<close> of the status code and the decoded key set.
\<close>

type_synonym response = "string + nat \<times> jwkst"

text \<open>
  The loop of \<open>Fetch\<close> over the keys of the response, building the new mapping;
  \<open>None\<close> is the panic of reading \<^verbatim>\<open>jwk.Kty\<close> through a nil pointer.
\<close>

fun keys_loop ::
  "lib \<Rightarrow> jwkt option list \<Rightarrow> (string \<rightharpoonup> PublicKey) \<Rightarrow> (string \<rightharpoonup> PublicKey) option"
where
  "keys_loop lb [] ks = Some ks"
| "keys_loop lb (None # rest) ks = None"
| "keys_loop lb (Some jwk # rest) ks =
     (if jwk_Kty jwk \<noteq> ''RSA'' then keys_loop lb rest ks
      else (case jwkToRSA lb jwk of
              Fail err \<Rightarrow> keys_loop lb rest ks
            | Panic \<Rightarrow> None
            | Ok pub \<Rightarrow> keys_loop lb rest (ks(jwk_Kid jwk \<mapsto> pub))))"

definition StatusOK :: nat where
  "StatusOK = 200"

definition Fetch :: "lib \<Rightarrow> response \<Rightarrow> JWKS \<Rightarrow> unit res \<times> JWKS" where
  "Fetch lb get c =
     (let c1 = c\<lparr>calls := calls c @ [FetchCall]\<rparr> in
      case get of
        Inl m \<Rightarrow> (Fail (Lib m), c1)
      | Inr (StatusCode, jwks) \<Rightarrow>
          if StatusCode \<noteq> StatusOK then
            (Fail (New (''JWKS fetch: expected '' @ Itoa StatusOK @ '', got '' @ Itoa StatusCode)),
             c1)
          else
            (case keys_loop lb (Keys jwks) Map.empty of
               None \<Rightarrow> (Panic, c1)
             | Some ks \<Rightarrow>
                 if dom ks = {} then (Fail (New ''JWKS fetch: empty key set''), c1)
                 else (Ok (), c1\<lparr>keys := ks\<rparr>)))"

definition Key :: "JWKS \<Rightarrow> string \<Rightarrow> PublicKey option \<times> JWKS" where
  "Key c kid = (keys c kid, c\<lparr>calls := calls c @ [KeyCall kid]\<rparr>)"

subsection \<open>Assertion of a token\<close>

text \<open>
  \<^verbatim>\<open>JWTRS256Assert\<close>. Besides the arguments of the source it takes the library, the
  outcome of the GET that \<open>Fetch\<close> issues and the reading of the clock, and it gives
  the cache as the call leaves it.
\<close>

definition JWTRS256Assert ::
  "lib \<Rightarrow> response \<Rightarrow> time \<Rightarrow> string \<Rightarrow> JWKS \<Rightarrow> string \<Rightarrow> string \<Rightarrow> string list \<Rightarrow>
   string list list \<Rightarrow> unit res \<times> JWKS"
where
  "JWTRS256Assert lb get now jwt jwks issuer tokenUse clientIDs roles =
     (case Split jwt (CHR ''.'') of
        [ehead, eclaims, esig] \<Rightarrow>
          (case DecodeString lb ehead of
             Inl m \<Rightarrow> (Fail (Unautorized ''invalid JWT header encoding''), jwks)
           | Inr jhead \<Rightarrow>
          (case UnmarshalHeader lb jhead of
             Inl m \<Rightarrow> (Fail (Unautorized ''invalid JWT header format''), jwks)
           | Inr head \<Rightarrow>
          if head_Alg head \<noteq> ''RS256'' then
            (Fail (Unautorized ''unsupported JWT signature algorithm''), jwks)
          else
          (case (case Key jwks (head_Kid head) of
                   (Some pub, j1) \<Rightarrow> (Ok pub, j1)
                 | (None, j1) \<Rightarrow>
                     (case Fetch lb get j1 of
                        (Fail err, j2) \<Rightarrow> (Fail (Unautorized (Error err)), j2)
                      | (Panic, j2) \<Rightarrow> (Panic, j2)
                      | (Ok u, j2) \<Rightarrow>
                          (case Key j2 (head_Kid head) of
                             (Some pub, j3) \<Rightarrow> (Ok pub, j3)
                           | (None, j3) \<Rightarrow>
                               (Fail (Unautorized ''JWKS kid is not found''), j3))))
           of
             (Fail err, j) \<Rightarrow> (Fail err, j)
           | (Panic, j) \<Rightarrow> (Panic, j)
           | (Ok pub, j) \<Rightarrow>
               (let msg = ehead @ ''.'' @ eclaims;
                    hash = Sum256 lb (bytes_of msg)
                in
                case DecodeString lb esig of
                  Inl m \<Rightarrow> (Fail (Unautorized ''invalid JWT signature format''), j)
                | Inr sig \<Rightarrow>
                if \<not> VerifyPKCS1v15 lb pub hash sig then
                  (Fail (Unautorized ''invalid JWT signature''), j)
                else
                (case DecodeString lb eclaims of
                   Inl m \<Rightarrow> (Fail (Unautorized ''invalid JWT claims encoding''), j)
                 | Inr jclaims \<Rightarrow>
                (case UnmarshalClaims lb jclaims of
                   Inl m \<Rightarrow> (Fail (Unautorized ''invalid JWT claims format''), j)
                 | Inr claims \<Rightarrow>
                (case jwtClaimsCheck now claims issuer tokenUse clientIDs roles of
                   None \<Rightarrow> (Ok (), j)
                 | Some err \<Rightarrow> (Fail err, j))))))))
      | parts \<Rightarrow> (Fail (Unautorized ''invalid JWT format''), jwks))"

definition JWTDecodeClaims :: "lib \<Rightarrow> string \<Rightarrow> JWTClaims res" where
  "JWTDecodeClaims lb jwt =
     (case Split jwt (CHR ''.'') of
        [p0, p1, p2] \<Rightarrow>
          (case DecodeString lb p1 of
             Inl m \<Rightarrow> Fail (Lib m)
           | Inr jstr \<Rightarrow>
               (case UnmarshalClaims lb jstr of
                  Inl m \<Rightarrow> Fail (Lib m)
                | Inr claims \<Rightarrow> Ok claims))
      | parts \<Rightarrow> Fail (New ''invalid JWT format''))"

subsection \<open>A library for the examples\<close>

text \<open>
  The theorems below hold for every library. The examples run on this one:
  \<^verbatim>\<open>base64.RawURLEncoding.DecodeString\<close> as the library computes it (the URL
  alphabet, no padding, line breaks skipped, a lone trailing character refused, the
  unused low bits of a trailing group not checked; the position that ends the library's
  message is left out), and stand-ins for the rest: JSON parsers that know the documents
  of the examples, a one-byte checksum for the digest, and a signature check that
  compares the signature with the digest.
\<close>

definition decodeMap :: "char \<Rightarrow> nat option" where
  "decodeMap c =
     (let n = (of_char c :: nat) in
      if 65 \<le> n \<and> n \<le> 90 then Some (n - 65)
      else if 97 \<le> n \<and> n \<le> 122 then Some (n - 71)
      else if 48 \<le> n \<and> n \<le> 57 then Some (n + 4)
      else if n = 45 then Some 62
      else if n = 95 then Some 63
      else None)"

fun sextets :: "string \<Rightarrow> nat list option" where
  "sextets [] = Some []"
| "sextets (c # cs) =
     (if c = CHR 0x0A \<or> c = CHR 0x0D then sextets cs
      else (case decodeMap c of
              None \<Rightarrow> None
            | Some v \<Rightarrow> map_option ((#) v) (sextets cs)))"

fun quanta :: "nat list \<Rightarrow> byte list option" where
  "quanta [] = Some []"
| "quanta [a] = None"
| "quanta [a, b] = Some [of_nat (4 * a + b div 16)]"
| "quanta [a, b, c] = Some [of_nat (4 * a + b div 16), of_nat (16 * (b mod 16) + c div 4)]"
| "quanta (a # b # c # d # rest) =
     map_option
       (\<lambda>bs. of_nat (4 * a + b div 16) # of_nat (16 * (b mod 16) + c div 4) #
              of_nat (64 * (c mod 4) + d) # bs)
       (quanta rest)"

definition RawURLDecodeString :: "string \<Rightarrow> string + byte list" where
  "RawURLDecodeString s =
     (case sextets s of
        None \<Rightarrow> Inl ''illegal base64 data''
      | Some vs \<Rightarrow>
          (case quanta vs of
             None \<Rightarrow> Inl ''illegal base64 data''
           | Some bs \<Rightarrow> Inr bs))"

definition example_header :: "byte list \<Rightarrow> string + jwtHeader" where
  \<open>example_header b =
     (if b = bytes_of ''{"alg":"RS256","typ":"JWT","kid":"k1"}''
      then Inr \<lparr>head_Alg = ''RS256'', head_Typ = ''JWT'', head_Kid = ''k1''\<rparr>
      else if b = bytes_of ''{"alg":"HS256","typ":"JWT","kid":"k1"}''
      then Inr \<lparr>head_Alg = ''HS256'', head_Typ = ''JWT'', head_Kid = ''k1''\<rparr>
      else if b = [] then Inl ''unexpected end of JSON input''
      else Inl ''invalid character'')\<close>

definition example_claims :: "byte list \<Rightarrow> string + JWTClaims" where
  \<open>example_claims b =
     (if b = bytes_of (''{"iss":"https://issuer.example","token_use":"access",'' @
                       ''"exp":4600,"client_id":"client-1"}'')
      then Inr \<lparr>Iss = ''https://issuer.example'', TokenUse = ''access'', Exp = 4600,
                ClientID = ''client-1'', Roles = [], Aud = [], Email = []\<rparr>
      else if b = bytes_of ''{}''
      then Inr \<lparr>Iss = [], TokenUse = [], Exp = 0, ClientID = [], Roles = [], Aud = [],
                Email = []\<rparr>
      else if b = [] then Inl ''unexpected end of JSON input''
      else Inl ''invalid character'')\<close>

definition example_lib :: lib where
  "example_lib =
     \<lparr>DecodeString = RawURLDecodeString,
      UnmarshalHeader = example_header,
      UnmarshalClaims = example_claims,
      Sum256 = (\<lambda>b. [sum_list b]),
      VerifyPKCS1v15 = (\<lambda>pub hash sig. sig = hash)\<rparr>"

text \<open>An RSA key of the examples: modulus bytes b1 77 21, exponent bytes 01 00 01.\<close>

definition example_jwk :: jwkt where
  "example_jwk =
     \<lparr>jwk_Kid = ''k1'', jwk_Kty = ''RSA'', jwk_Alg = ''RS256'', jwk_N = ''sXch'',
      jwk_E = ''AQAB''\<rparr>"

text \<open>
  The tokens of the examples: the header names key k1, with algorithm RS256 in the
  first and HS256 in the second; the claims are those of \<open>example_claims\<close>; the
  signature segment is the checksum of the first token's signing input.
\<close>

definition example_header64 :: string where
  "example_header64 = ''eyJhbGciOiJSUzI1NiIsInR5cCI6IkpXVCIsImtpZCI6ImsxIn0''"

definition example_claims64 :: string where
  "example_claims64 =
     ''eyJpc3MiOiJodHRwczovL2lzc3Vlci5leGFtcGxlIiwidG9rZW5fdXNlIjoiYWNjZXNzIiwi'' @
     ''ZXhwIjo0NjAwLCJjbGllbnRfaWQiOiJjbGllbnQtMSJ9''"

definition example_jwt :: string where
  "example_jwt = example_header64 @ ''.'' @ example_claims64 @ ''.vg''"

definition example_jwt_hs256 :: string where
  "example_jwt_hs256 =
     ''eyJhbGciOiJIUzI1NiIsInR5cCI6IkpXVCIsImtpZCI6ImsxIn0'' @ ''.'' @ example_claims64 @ ''.vg''"

section \<open>Properties\<close>

subsection \<open>The examples, evaluated\<close>

lemma max_uint32: "(ucast (- 1 :: 32 word) :: 64 word) = 4294967295"
  by (simp add: unsigned_minus_1_eq_mask mask_eq_exp_minus_1)

lemma example_decode_AQAB: "DecodeString example_lib ''AQAB'' = Inr [1, 0, 1]"
  by (simp add: example_lib_def RawURLDecodeString_def decodeMap_def)

lemma example_decode_sXch: "DecodeString example_lib ''sXch'' = Inr [0xb1, 0x77, 0x21]"
  by (simp add: example_lib_def RawURLDecodeString_def decodeMap_def)

lemma example_decode_nine: "DecodeString example_lib ''AQAAAAAAAQAB'' = Inr [1, 0, 0, 0, 0, 0, 1, 0, 1]"
  by (simp add: example_lib_def RawURLDecodeString_def decodeMap_def)

lemma example_jwk_decodes:
  "jwkToRSA example_lib example_jwk = Ok \<lparr>pub_N = 11630369, pub_E = 65537\<rparr>"
  by (simp add: jwkToRSA_def example_jwk_def example_decode_AQAB example_decode_sXch
      SetBytes_def max_uint32)

lemma example_jwt_split:
  "Split example_jwt (CHR ''.'') = [example_header64, example_claims64, ''vg'']"
  by (simp add: example_jwt_def example_header64_def example_claims64_def)

lemma example_jwt_hs256_split:
  "Split example_jwt_hs256 (CHR ''.'') =
     [''eyJhbGciOiJIUzI1NiIsInR5cCI6IkpXVCIsImtpZCI6ImsxIn0'', example_claims64, ''vg'']"
  by (simp add: example_jwt_hs256_def example_claims64_def)

lemma example_header_rs256:
  "\<exists>jhead. DecodeString example_lib example_header64 = Inr jhead \<and>
     UnmarshalHeader example_lib jhead =
       Inr \<lparr>head_Alg = ''RS256'', head_Typ = ''JWT'', head_Kid = ''k1''\<rparr>"
  by (simp add: example_lib_def RawURLDecodeString_def decodeMap_def example_header64_def
      example_header_def bytes_of_def)

lemma example_header_hs256:
  "\<exists>jhead. DecodeString example_lib ''eyJhbGciOiJIUzI1NiIsInR5cCI6IkpXVCIsImtpZCI6ImsxIn0'' =
       Inr jhead \<and>
     UnmarshalHeader example_lib jhead =
       Inr \<lparr>head_Alg = ''HS256'', head_Typ = ''JWT'', head_Kid = ''k1''\<rparr>"
  by (simp add: example_lib_def RawURLDecodeString_def decodeMap_def
      example_header_def bytes_of_def)

lemma example_claims_decoded:
  "\<exists>jclaims. DecodeString example_lib example_claims64 = Inr jclaims \<and>
     UnmarshalClaims example_lib jclaims =
       Inr \<lparr>Iss = ''https://issuer.example'', TokenUse = ''access'', Exp = 4600,
            ClientID = ''client-1'', Roles = [], Aud = [], Email = []\<rparr>"
  by (simp add: example_lib_def RawURLDecodeString_def decodeMap_def example_claims64_def
      example_claims_def bytes_of_def)

lemma example_signature:
  "DecodeString example_lib ''vg'' = Inr [190] \<and>
   Sum256 example_lib (bytes_of (example_header64 @ ''.'' @ example_claims64)) = [190] \<and>
   VerifyPKCS1v15 example_lib pub [190] [190]"
  by (simp add: example_lib_def RawURLDecodeString_def decodeMap_def example_claims64_def
      example_header64_def bytes_of_def)

lemma example_fetch_after_miss:
  "Fetch example_lib (Inr (200, \<lparr>Keys = [Some example_jwk]\<rparr>)) (snd (Key NewJWKS ''k1'')) =
     (Ok (), \<lparr>keys = [''k1'' \<mapsto> \<lparr>pub_N = 11630369, pub_E = 65537\<rparr>],
              calls = [KeyCall ''k1'', FetchCall]\<rparr>)"
  by (simp add: Fetch_def Key_def StatusOK_def NewJWKS_def example_jwk_decodes)
     (simp add: example_jwk_def)

lemma example_fetch_other_kid:
  "Fetch example_lib (Inr (200, \<lparr>Keys = [Some (example_jwk\<lparr>jwk_Kid := ''k2''\<rparr>)]\<rparr>))
     (snd (Key NewJWKS ''k1'')) =
     (Ok (), \<lparr>keys = [''k2'' \<mapsto> \<lparr>pub_N = 11630369, pub_E = 65537\<rparr>],
              calls = [KeyCall ''k1'', FetchCall]\<rparr>)"
proof -
  have "jwkToRSA example_lib (example_jwk\<lparr>jwk_Kid := ''k2''\<rparr>) =
      Ok \<lparr>pub_N = 11630369, pub_E = 65537\<rparr>"
    by (simp add: jwkToRSA_def example_jwk_def example_decode_AQAB example_decode_sXch
        SetBytes_def max_uint32)
  then show ?thesis
    by (simp add: Fetch_def Key_def StatusOK_def NewJWKS_def)
       (simp add: example_jwk_def)
qed

lemma example_fetch_refused:
  "Fetch example_lib (Inl ''connection refused'') (snd (Key NewJWKS ''k1'')) =
     (Fail (Lib ''connection refused''),
      \<lparr>keys = Map.empty, calls = [KeyCall ''k1'', FetchCall]\<rparr>)"
  by (simp add: Fetch_def Key_def NewJWKS_def)

subsection \<open>Role groups\<close>

lemma ContainsAny_None:
  "ContainsAny st query = None \<longleftrightarrow> set query \<inter> set st = {}"
  by (induction query) (auto simp: Contains_def)

lemma ContainsAny_Some:
  "ContainsAny st query = Some x \<Longrightarrow> x \<in> set query \<and> x \<in> set st"
  by (induction query) (auto simp: Contains_def split: if_splits)

lemma roles_loop_None:
  "roles_loop rs groups = None \<longleftrightarrow> list_all (\<lambda>g. set g \<inter> set rs \<noteq> {}) groups"
  by (induction groups)
    (auto simp: ContainsAny_None split: option.splits dest: ContainsAny_Some)

lemma roles_loop_first_unsatisfied:
  assumes "list_all (\<lambda>g. set g \<inter> set rs \<noteq> {}) pre" and "set g \<inter> set rs = {}"
  shows "roles_loop rs (pre @ g # post) =
    Some (Forbidden (''missing role: at least one of '' @ Join g '', '' @ '' is required''))"
  using assms
proof (induction pre)
  case Nil
  then show ?case by (simp add: ContainsAny_None [THEN iffD2])
next
  case (Cons h pre)
  then obtain f where "ContainsAny rs h = Some f"
    by (cases "ContainsAny rs h") (auto simp: ContainsAny_None)
  with Cons show ?case by simp
qed

lemma roles_loop_empty_group:
  "[] \<in> set groups \<Longrightarrow> \<exists>m. roles_loop rs groups = Some (Forbidden m)"
  by (induction groups) (auto split: option.splits)

lemma jwtClaimsCheck_roles_stage:
  assumes "Iss claims = issuer" and "TokenUse claims = tokenUse"
    and "\<not> Before (Unix (Exp claims) 0) now"
    and "(tokenUse = TokenUseAccess \<and> Contains clientIDs (ClientID claims)) \<or>
         (tokenUse = TokenUseID \<and> Contains clientIDs (Aud claims))"
  shows "jwtClaimsCheck now claims issuer tokenUse clientIDs roles =
    roles_loop (Roles claims) roles"
  using assms by (auto simp: jwtClaimsCheck_def TokenUseAccess_def TokenUseID_def)

text \<open>
  Claim C2. For claims and a policy that pass the issuer, token-use, expiry and
  client-id checks, the check returns nil exactly when every role group holds a role of
  the token; an empty list of groups asks for nothing; and the first group (in the order
  given) that holds no role of the token gives the Forbidden error that lists its members.
\<close>

theorem role_groups_and_of_ors:
  assumes "Iss claims = issuer" and "TokenUse claims = tokenUse"
    and "\<not> Before (Unix (Exp claims) 0) now"
    and "(tokenUse = TokenUseAccess \<and> ClientID claims \<in> set clientIDs) \<or>
         (tokenUse = TokenUseID \<and> Aud claims \<in> set clientIDs)"
  shows "(jwtClaimsCheck now claims issuer tokenUse clientIDs roles = None \<longleftrightarrow>
            (\<forall>g \<in> set roles. \<exists>r \<in> set (Roles claims). r \<in> set g)) \<and>
         (roles = [] \<longrightarrow> jwtClaimsCheck now claims issuer tokenUse clientIDs roles = None) \<and>
         (\<forall>pre g post.
            roles = pre @ g # post \<and>
            (\<forall>h \<in> set pre. \<exists>r \<in> set (Roles claims). r \<in> set h) \<and>
            \<not> (\<exists>r \<in> set (Roles claims). r \<in> set g) \<longrightarrow>
            jwtClaimsCheck now claims issuer tokenUse clientIDs roles =
              Some (Forbidden
                (''missing role: at least one of '' @ Join g '', '' @ '' is required'')))"
proof -
  have stage: "jwtClaimsCheck now claims issuer tokenUse clientIDs roles =
      roles_loop (Roles claims) roles" for roles
    using assms by (intro jwtClaimsCheck_roles_stage) (auto simp: Contains_def)
  have sat: "(set g \<inter> set (Roles claims) \<noteq> {}) = (\<exists>r \<in> set (Roles claims). r \<in> set g)" for g
    by auto
  have iff: "roles_loop (Roles claims) roles = None \<longleftrightarrow>
      (\<forall>g \<in> set roles. \<exists>r \<in> set (Roles claims). r \<in> set g)"
    by (simp add: roles_loop_None list_all_iff sat)
  have first: "roles_loop (Roles claims) (pre @ g # post) =
      Some (Forbidden (''missing role: at least one of '' @ Join g '', '' @ '' is required''))"
    if "\<forall>h \<in> set pre. \<exists>r \<in> set (Roles claims). r \<in> set h"
      and "\<not> (\<exists>r \<in> set (Roles claims). r \<in> set g)" for pre g post
  proof (rule roles_loop_first_unsatisfied)
    show "list_all (\<lambda>g. set g \<inter> set (Roles claims) \<noteq> {}) pre"
      using that(1) by (simp add: list_all_iff sat)
    show "set g \<inter> set (Roles claims) = {}"
      using that(2) by auto
  qed
  show ?thesis
    unfolding stage using iff first by auto
qed

theorem role_groups_and_of_ors_witness:
  "jwtClaimsCheck (Unix 1000 0)
     \<lparr>Iss = ''https://issuer.example'', TokenUse = ''access'', Exp = 4600,
      ClientID = ''client-1'', Roles = [''admin''], Aud = [], Email = []\<rparr>
     ''https://issuer.example'' ''access'' [''client-1'']
     [[''admin'', ''owner''], [''billing'']] =
   Some (Forbidden ''missing role: at least one of billing is required'')"
proof -
  let ?c = "\<lparr>Iss = ''https://issuer.example'', TokenUse = ''access'', Exp = 4600,
      ClientID = ''client-1'', Roles = [''admin''], Aud = [], Email = []\<rparr>"
  let ?now = "Unix 1000 0"
  have h1: "Iss ?c = ''https://issuer.example''" and h2: "TokenUse ?c = ''access''"
    by simp_all
  have h3: "\<not> Before (Unix (Exp ?c) 0) ?now"
    by (simp add: Before_def Unix_def unixToInternal_def)
  have h4: "(''access'' = TokenUseAccess \<and> ClientID ?c \<in> set [''client-1'']) \<or>
      (''access'' = TokenUseID \<and> Aud ?c \<in> set [''client-1''])"
    by (simp add: TokenUseAccess_def)
  note T = role_groups_and_of_ors [OF h1 h2 h3 h4,
      of "[[''admin'', ''owner''], [''billing'']]"]
  from T [THEN conjunct2, THEN conjunct2, rule_format,
      of "[[''admin'', ''owner'']]" "[''billing'']" "[]"]
  show ?thesis by simp
qed

text \<open>
  Claim C10. For claims and a policy that pass the issuer, token-use, expiry and
  client-id checks, a policy whose list of role groups holds an empty group is answered
  with a Forbidden error, whatever roles the token carries.
\<close>

theorem empty_role_group_forbidden:
  assumes "Iss claims = issuer" and "TokenUse claims = tokenUse"
    and "\<not> Before (Unix (Exp claims) 0) now"
    and "(tokenUse = TokenUseAccess \<and> ClientID claims \<in> set clientIDs) \<or>
         (tokenUse = TokenUseID \<and> Aud claims \<in> set clientIDs)"
    and "[] \<in> set roles"
  shows "\<exists>m. jwtClaimsCheck now claims issuer tokenUse clientIDs roles = Some (Forbidden m)"
proof -
  have "jwtClaimsCheck now claims issuer tokenUse clientIDs roles =
      roles_loop (Roles claims) roles"
    using assms(1-4) by (intro jwtClaimsCheck_roles_stage) (auto simp: Contains_def)
  with roles_loop_empty_group [OF assms(5)] show ?thesis by simp
qed

theorem empty_role_group_forbidden_witness:
  "\<exists>m. jwtClaimsCheck (Unix 1000 0)
     \<lparr>Iss = ''https://issuer.example'', TokenUse = ''id'', Exp = 4600,
      ClientID = [], Roles = [''admin''], Aud = ''client-1'', Email = []\<rparr>
     ''https://issuer.example'' ''id'' [''client-1'']
     [[''admin''], []] = Some (Forbidden m)"
proof -
  let ?c = "\<lparr>Iss = ''https://issuer.example'', TokenUse = ''id'', Exp = 4600,
      ClientID = [], Roles = [''admin''], Aud = ''client-1'', Email = []\<rparr>"
  let ?now = "Unix 1000 0"
  have h1: "Iss ?c = ''https://issuer.example''" and h2: "TokenUse ?c = ''id''"
    by simp_all
  have h3: "\<not> Before (Unix (Exp ?c) 0) ?now"
    by (simp add: Before_def Unix_def unixToInternal_def)
  have h4: "(''id'' = TokenUseAccess \<and> ClientID ?c \<in> set [''client-1'']) \<or>
      (''id'' = TokenUseID \<and> Aud ?c \<in> set [''client-1''])"
    by (simp add: TokenUseID_def)
  have h5: "[] \<in> set [[''admin''], []]"
    by simp
  from empty_role_group_forbidden [OF h1 h2 h3 h4 h5] show ?thesis .
qed

subsection \<open>Expiry\<close>

lemma sint_unixToInternal:
  assumes "sint (s :: int64) < 2 ^ 63 - 62135596800"
  shows "sint (s + unixToInternal) = sint s + 62135596800"
proof -
  have lo: "- (2 ^ 63) \<le> sint s"
    using sint_ge [of s] by simp
  have "sint (s + unixToInternal) = signed_take_bit 63 (sint s + 62135596800)"
    by (simp add: sint_word_ariths unixToInternal_def)
  also have "\<dots> = sint s + 62135596800"
    using assms lo by (intro signed_take_bit_int_eq_self) simp_all
  finally show ?thesis .
qed

lemma Before_Unix:
  assumes "sint (e :: int64) < 2 ^ 63 - 62135596800"
    and "sint (sec :: int64) < 2 ^ 63 - 62135596800"
    and "nsec < 1000000000"
  shows "Before (Unix e 0) (Unix sec nsec) \<longleftrightarrow> sint e < sint sec \<or> (e = sec \<and> 0 < nsec)"
  using assms sint_unixToInternal [of e] sint_unixToInternal [of sec]
  by (simp add: Before_def Unix_def)

text \<open>
  Claim C7, as the code has it. Let the clock read \<open>sec\<close> seconds and \<open>nsec\<close>
  nanoseconds after the epoch, and let the expiry and \<open>sec\<close> be below
  \<open>2^63 - 62135596800\<close>, where \<^verbatim>\<open>time.Unix\<close> does not wrap around. Then the check
  answers with the Unauthorized error "expired JWT" exactly when the issuer and the
  token use match and the expiry, an instant of whole seconds, lies strictly before the
  current instant, which keeps its nanoseconds: the expiry second is earlier than the
  current second, or it is the current second and the current instant is past its start.
  So a token whose expiry is the current instant is not expired, and one whose expiry is
  one second in the past is.
\<close>

theorem expired_iff_before_now:
  assumes "sint (Exp claims) < 2 ^ 63 - 62135596800"
    and "sint sec < 2 ^ 63 - 62135596800"
    and "nsec < 1000000000"
  shows "jwtClaimsCheck (Unix sec nsec) claims issuer tokenUse clientIDs roles =
      Some (Unautorized ''expired JWT'') \<longleftrightarrow>
    Iss claims = issuer \<and> TokenUse claims = tokenUse \<and>
    (sint (Exp claims) < sint sec \<or> (Exp claims = sec \<and> 0 < nsec))"
proof -
  have "roles_loop rs roles \<noteq> Some (Unautorized m)" for rs m
    by (induction roles) (auto split: option.splits)
  then show ?thesis
    unfolding Before_Unix [OF assms, symmetric]
    by (auto simp: jwtClaimsCheck_def)
qed

theorem expired_iff_before_now_witness:
  "jwtClaimsCheck (Unix 100 0)
     \<lparr>Iss = ''https://issuer.example'', TokenUse = ''access'', Exp = 100,
      ClientID = ''client-1'', Roles = [], Aud = [], Email = []\<rparr>
     ''https://issuer.example'' ''access'' [''client-1''] [] \<noteq>
     Some (Unautorized ''expired JWT'') \<and>
   jwtClaimsCheck (Unix 100 0)
     \<lparr>Iss = ''https://issuer.example'', TokenUse = ''access'', Exp = 99,
      ClientID = ''client-1'', Roles = [], Aud = [], Email = []\<rparr>
     ''https://issuer.example'' ''access'' [''client-1''] [] =
     Some (Unautorized ''expired JWT'')"
proof -
  let ?c = "\<lambda>e. \<lparr>Iss = ''https://issuer.example'', TokenUse = ''access'', Exp = e,
      ClientID = ''client-1'', Roles = [], Aud = [], Email = []\<rparr>"
  have r: "sint (100 :: int64) < 2 ^ 63 - 62135596800"
    and r': "sint (99 :: int64) < 2 ^ 63 - 62135596800"
    and n: "(0 :: nat) < 1000000000"
    by simp_all
  have e: "sint (Exp (?c 100)) < 2 ^ 63 - 62135596800"
    and e': "sint (Exp (?c 99)) < 2 ^ 63 - 62135596800"
    by simp_all
  from expired_iff_before_now [OF e r n, of "''https://issuer.example''" "''access''"
      "[''client-1'']" "[]"]
    expired_iff_before_now [OF e' r n, of "''https://issuer.example''" "''access''"
      "[''client-1'']" "[]"]
  show ?thesis by simp
qed

text \<open>
  The claim as written fails: at half a second past second 100 a token whose expiry is
  second 100, the current whole second, is rejected as expired.
\<close>

theorem expired_within_current_second:
  "jwtClaimsCheck (Unix 100 500000000)
     \<lparr>Iss = ''https://issuer.example'', TokenUse = ''access'', Exp = 100,
      ClientID = ''client-1'', Roles = [], Aud = [], Email = []\<rparr>
     ''https://issuer.example'' ''access'' [''client-1''] [] =
   Some (Unautorized ''expired JWT'') \<and>
   t_nsec (Unix 100 500000000) = 500000000 \<and>
   t_sec (Unix 100 500000000) = t_sec (Unix 100 0)"
  by (simp add: jwtClaimsCheck_def Before_def Unix_def unixToInternal_def)

text \<open>
  Outside that range the sum in \<^verbatim>\<open>time.Unix\<close> wraps around to an instant far in the
  past: a token whose expiry is the largest 64-bit number is rejected as expired.
\<close>

lemma largest_expiry_rejected:
  "jwtClaimsCheck (Unix 1000 0)
     \<lparr>Iss = ''https://issuer.example'', TokenUse = ''access'', Exp = 9223372036854775807,
      ClientID = ''client-1'', Roles = [], Aud = [], Email = []\<rparr>
     ''https://issuer.example'' ''access'' [''client-1''] [] =
   Some (Unautorized ''expired JWT'')"
  by (simp add: jwtClaimsCheck_def Before_def Unix_def unixToInternal_def)

subsection \<open>Key codec\<close>

text \<open>
  What the decoder does with the exponent bytes: a slice of three or four bytes is read
  as a big-endian 32-bit number, and any other slice whose value is below \<open>2^64\<close> is
  accepted exactly when the value is at most \<open>2^32 - 1\<close>. The decoder never panics.
\<close>

lemma Uint32_value:
  fixes b0 b1 b2 b3 :: byte
  shows "unat (ucast b3 OR push_bit 8 (ucast b2) OR push_bit 16 (ucast b1) OR
      push_bit 24 (ucast b0) :: 32 word) =
    256 * (256 * (256 * unat b0 + unat b1) + unat b2) + unat b3"
proof -
  define p0 p1 p2 p3 :: "32 word" where "p0 = ucast b3" and "p1 = push_bit 8 (ucast b2)"
    and "p2 = push_bit 16 (ucast b1)" and "p3 = push_bit 24 (ucast b0)"
  define n where "n = 256 * (256 * (256 * unat b0 + unat b1) + unat b2) + unat b3"
  have d1: "p2 AND p3 = 0" and d2: "p1 AND (p2 OR p3) = 0"
    and d3: "p0 AND (p1 OR p2 OR p3) = 0"
    unfolding p0_def p1_def p2_def p3_def
    by (auto simp: bit_eq_iff bit_simps dest!: bit_imp_le_length)
  have s: "p0 OR p1 OR p2 OR p3 = p0 + (p1 + (p2 + p3))"
    using d1 d2 d3 by (simp add: disjunctive_add_eq_or)
  have u: "unat b0 < 256" "unat b1 < 256" "unat b2 < 256" "unat b3 < 256"
    using unsigned_less [of b0] unsigned_less [of b1] unsigned_less [of b2] unsigned_less [of b3]
    by simp_all
  have w: "p0 + (p1 + (p2 + p3)) = of_nat n"
    unfolding p0_def p1_def p2_def p3_def n_def
    by (simp add: push_bit_eq_mult algebra_simps)
  have "n < 2 ^ 32"
    using u unfolding n_def by simp
  then have "unat (of_nat n :: 32 word) = n"
    by (simp add: unat_of_nat)
  with s w show ?thesis
    unfolding p0_def p1_def p2_def p3_def n_def by simp
qed

lemma ucast_32_64: "unat (ucast (w :: 32 word) :: 64 word) = unat w"
proof -
  have "unat w < 2 ^ 32"
    using unsigned_less [of w, where 'a = nat] by simp
  then have "unat w < 2 ^ 64"
    by simp
  then have "take_bit 64 (unat w) = unat w"
    by (simp only: take_bit_nat_eq_self)
  then show ?thesis
    by (simp add: unsigned_ucast_eq)
qed

lemma foldl_bytes:
  "foldl (\<lambda>acc b. 256 * acc + unat (b::byte)) a bs =
     a * 256 ^ length bs + foldl (\<lambda>acc b. 256 * acc + unat b) 0 bs"
proof (induction bs arbitrary: a)
  case Nil
  then show ?case by simp
next
  case (Cons x xs)
  have "foldl (\<lambda>acc b. 256 * acc + unat b) a (x # xs) =
      foldl (\<lambda>acc b. 256 * acc + unat b) (256 * a + unat x) xs"
    by simp
  also have "\<dots> = (256 * a + unat x) * 256 ^ length xs +
      foldl (\<lambda>acc b. 256 * acc + unat b) 0 xs"
    by (rule Cons.IH)
  also have "\<dots> = a * 256 ^ length (x # xs) +
      (unat x * 256 ^ length xs + foldl (\<lambda>acc b. 256 * acc + unat b) 0 xs)"
    by (simp add: add_mult_distrib)
  also have "unat x * 256 ^ length xs + foldl (\<lambda>acc b. 256 * acc + unat b) 0 xs =
      foldl (\<lambda>acc b. 256 * acc + unat b) 0 (x # xs)"
    using Cons.IH [of "unat x"] by simp
  finally show ?case .
qed

lemma SetBytes_Cons: "SetBytes (b # bs) = unat b * 256 ^ length bs + SetBytes bs"
  using foldl_bytes [of "unat b" bs] by (simp add: SetBytes_def)

lemma SetBytes_less: "SetBytes bs < 256 ^ length bs"
proof (induction bs)
  case Nil
  then show ?case by (simp add: SetBytes_def)
next
  case (Cons b bs)
  have "unat b \<le> 255"
    using unsigned_less [of b, where 'a = nat] by simp
  then have "unat b * 256 ^ length bs \<le> 255 * 256 ^ length bs"
    by simp
  with Cons have "unat b * 256 ^ length bs + SetBytes bs < 255 * 256 ^ length bs + 256 ^ length bs"
    by linarith
  then show ?case
    by (simp add: SetBytes_Cons)
qed

lemma Uint32_SetBytes:
  assumes "length bs = 4"
  shows "\<exists>w. Uint32 bs = Some w \<and> unat w = SetBytes bs"
proof -
  from assms obtain b0 b1 b2 b3 where bs: "bs = [b0, b1, b2, b3]"
    by (cases bs; cases "tl bs"; cases "tl (tl bs)"; cases "tl (tl (tl bs))") auto
  show ?thesis
    unfolding bs by (simp add: Uint32_value SetBytes_def)
qed

lemma uint_ucast_32_64: "uint (ucast (w :: 32 word) :: 64 word) = int (unat w)"
  using ucast_32_64 [of w] by (simp only: uint_nat)

lemma less_ucast_32_64: "\<not> 4294967295 < (ucast (w :: 32 word) :: 64 word)"
proof -
  have "unat w < 2 ^ 32"
    using unsigned_less [of w, where 'a = nat] by simp
  then show ?thesis
    by (simp add: word_less_nat_alt ucast_32_64)
qed

lemma jwkToRSA_exponent:
  assumes n: "DecodeString lb (jwk_N jwk) = Inr nb"
    and e: "DecodeString lb (jwk_E jwk) = Inr eb"
    and small: "length eb = 3 \<or> length eb = 4 \<or> SetBytes eb < 2 ^ 64"
  shows "jwkToRSA lb jwk =
    (if 2 ^ 32 - 1 < SetBytes eb then Fail (New ''JWK exponent too large'')
     else Ok \<lparr>pub_N = SetBytes nb, pub_E = int (SetBytes eb)\<rparr>)"
proof -
  consider (three) "length eb = 3" | (four) "length eb = 4"
    | (other) "length eb \<noteq> 3" "length eb \<noteq> 4" "SetBytes eb < 2 ^ 64"
    using small by blast
  then show ?thesis
  proof cases
    case three
    then obtain w where w: "Uint32 (0 # eb) = Some w" "unat w = SetBytes (0 # eb)"
      using Uint32_SetBytes [of "0 # eb"] by auto
    have v: "SetBytes (0 # eb) = SetBytes eb"
      by (simp add: SetBytes_Cons)
    have "SetBytes eb < 2 ^ 32"
      using SetBytes_less [of eb] three by simp
    then show ?thesis
      using n e three w v
      by (simp add: jwkToRSA_def max_uint32 less_ucast_32_64 uint_ucast_32_64
          del: Uint32.simps)
  next
    case four
    then obtain w where w: "Uint32 eb = Some w" "unat w = SetBytes eb"
      using Uint32_SetBytes [of eb] by auto
    have "SetBytes eb < 2 ^ 32"
      using SetBytes_less [of eb] four by simp
    then show ?thesis
      using n e four w
      by (simp add: jwkToRSA_def max_uint32 less_ucast_32_64 uint_ucast_32_64
          del: Uint32.simps)
  next
    case other
    have u: "unat (Uint64 (SetBytes eb)) = SetBytes eb"
      using other(3) by (simp add: Uint64_def unat_of_nat)
    have c: "(4294967295 < Uint64 (SetBytes eb)) = (4294967295 < SetBytes eb)"
      using u by (simp add: word_less_nat_alt)
    have i: "uint (Uint64 (SetBytes eb)) = int (SetBytes eb)"
      using u by (simp only: uint_nat)
    show ?thesis
      using n e other(1,2) by (simp add: jwkToRSA_def max_uint32 c i)
  qed
qed

lemma jwkToRSA_not_Panic: "jwkToRSA lb jwk \<noteq> Panic"
proof (cases "DecodeString lb (jwk_N jwk)")
  case (Inl m)
  then show ?thesis by (simp add: jwkToRSA_def)
next
  case n: (Inr nb)
  show ?thesis
  proof (cases "DecodeString lb (jwk_E jwk)")
    case (Inl m)
    with n show ?thesis by (simp add: jwkToRSA_def)
  next
    case e: (Inr eb)
    show ?thesis
    proof (cases "length eb = 3 \<or> length eb = 4")
      case True
      then have "length eb = 3 \<or> length eb = 4 \<or> SetBytes eb < 2 ^ 64"
        by blast
      from jwkToRSA_exponent [OF n e this] show ?thesis
        by (simp split: if_splits)
    next
      case False
      with n e show ?thesis
        by (simp add: jwkToRSA_def)
    qed
  qed
qed

text \<open>
  The exponents of the specification: the three bytes 01 00 01 and the four bytes
  00 01 00 01 both decode to 65537, and the five bytes 01 00 00 00 00, the number
  \<open>2^32\<close>, are refused.
\<close>

lemma exponent_examples:
  "jwkToRSA example_lib (example_jwk\<lparr>jwk_E := ''AQAB''\<rparr>) =
     Ok \<lparr>pub_N = 11630369, pub_E = 65537\<rparr> \<and>
   jwkToRSA example_lib (example_jwk\<lparr>jwk_E := ''AAEAAQ''\<rparr>) =
     Ok \<lparr>pub_N = 11630369, pub_E = 65537\<rparr> \<and>
   jwkToRSA example_lib (example_jwk\<lparr>jwk_E := ''AQAAAAA''\<rparr>) =
     Fail (New ''JWK exponent too large'')"
proof -
  have four: "DecodeString example_lib ''AAEAAQ'' = Inr [0, 1, 0, 1]"
    and five: "DecodeString example_lib ''AQAAAAA'' = Inr [1, 0, 0, 0, 0]"
    by (simp_all add: example_lib_def RawURLDecodeString_def decodeMap_def)
  show ?thesis
    by (simp add: jwkToRSA_def example_jwk_def example_decode_AQAB example_decode_sXch
        four five SetBytes_def Uint64_def max_uint32)
qed

text \<open>
  Claim C4. The decoder is meant to refuse every exponent above \<open>2^32 - 1\<close>, but for
  an exponent of a length other than 3 or 4 bytes it compares only the low 64 bits of
  the value with the bound. The nine bytes 01 00 00 00 00 00 01 00 01 are the number
  \<open>2^64 + 65537\<close>, and the key decodes with exponent 65537.
\<close>

theorem oversized_exponent_accepted:
  "DecodeString example_lib ''AQAAAAAAAQAB'' = Inr [1, 0, 0, 0, 0, 0, 1, 0, 1] \<and>
   SetBytes [1, 0, 0, 0, 0, 0, 1, 0, 1] = 2 ^ 64 + 65537 \<and>
   jwkToRSA example_lib (example_jwk\<lparr>jwk_E := ''AQAAAAAAAQAB''\<rparr>) =
     Ok \<lparr>pub_N = 11630369, pub_E = 65537\<rparr>"
  by (simp add: jwkToRSA_def example_jwk_def example_decode_nine example_decode_sXch
      SetBytes_def Uint64_def max_uint32)

subsection \<open>Fetch\<close>

text \<open>
  Claim C5. A fetch that does not succeed (an error of the GET, a status other than
  200, an empty decoded key set; a panic as well) leaves the mapping of the cache as it
  was. A fetch that succeeds got status 200 and puts in its place the mapping that the
  loop built from the response alone, starting from the empty mapping.
\<close>

theorem failed_fetch_keeps_keys:
  "(fst (Fetch lb get c) \<noteq> Ok () \<longrightarrow> keys (snd (Fetch lb get c)) = keys c) \<and>
   (fst (Fetch lb get c) = Ok () \<longrightarrow>
      (\<exists>jwks. get = Inr (200, jwks) \<and>
         keys_loop lb (Keys jwks) Map.empty = Some (keys (snd (Fetch lb get c)))))"
  by (auto simp: Fetch_def Let_def StatusOK_def split: sum.splits option.splits prod.splits)

theorem failed_fetch_keeps_keys_witness:
  "Fetch example_lib (Inr (503, \<lparr>Keys = []\<rparr>))
     \<lparr>keys = [''k0'' \<mapsto> \<lparr>pub_N = 11630369, pub_E = 65537\<rparr>], calls = []\<rparr> =
     (Fail (New ''JWKS fetch: expected 200, got 503''),
      \<lparr>keys = [''k0'' \<mapsto> \<lparr>pub_N = 11630369, pub_E = 65537\<rparr>], calls = [FetchCall]\<rparr>) \<and>
   keys (snd (Fetch example_lib (Inr (200, \<lparr>Keys = [Some example_jwk]\<rparr>))
     \<lparr>keys = [''k0'' \<mapsto> \<lparr>pub_N = 11630369, pub_E = 65537\<rparr>], calls = []\<rparr>)) =
     [''k1'' \<mapsto> \<lparr>pub_N = 11630369, pub_E = 65537\<rparr>]"
proof -
  let ?c = "\<lparr>keys = [''k0'' \<mapsto> \<lparr>pub_N = 11630369, pub_E = 65537\<rparr>], calls = []\<rparr>"
  let ?bad = "Inr (503, \<lparr>Keys = []\<rparr>) :: response"
  let ?good = "Inr (200, \<lparr>Keys = [Some example_jwk]\<rparr>) :: response"
  have bad: "Fetch example_lib ?bad ?c =
      (Fail (New ''JWKS fetch: expected 200, got 503''), ?c\<lparr>calls := [FetchCall]\<rparr>)"
    by (simp add: Fetch_def StatusOK_def digit_def Itoa.simps)
  have good: "fst (Fetch example_lib ?good ?c) = Ok ()"
    by (simp add: Fetch_def StatusOK_def example_jwk_decodes)
       (simp add: example_jwk_def)
  have loop: "keys_loop example_lib (Keys \<lparr>Keys = [Some example_jwk]\<rparr>) Map.empty =
      Some [''k1'' \<mapsto> \<lparr>pub_N = 11630369, pub_E = 65537\<rparr>]"
    by (simp add: example_jwk_decodes) (simp add: example_jwk_def)
  from failed_fetch_keeps_keys [of example_lib ?bad ?c] bad
  have "keys (snd (Fetch example_lib ?bad ?c)) = keys ?c"
    by simp
  moreover
  from failed_fetch_keeps_keys [of example_lib ?good ?c] good loop
  have "keys (snd (Fetch example_lib ?good ?c)) = [''k1'' \<mapsto> \<lparr>pub_N = 11630369, pub_E = 65537\<rparr>]"
    by auto
  ultimately show ?thesis
    using bad by simp
qed

text \<open>
  On a response whose key array has no \<^verbatim>\<open>null\<close> element the fetch never panics,
  and it succeeds exactly when the status is 200 and some key of type RSA decodes; an
  error of the GET and a status other than 200 are errors of the fetch.
\<close>

lemma keys_loop_without_nil:
  assumes "None \<notin> set ks"
  shows "\<exists>m. keys_loop lb ks acc = Some m \<and>
    (dom m = {} \<longleftrightarrow>
       dom acc = {} \<and>
       \<not> (\<exists>k pub. Some k \<in> set ks \<and> jwk_Kty k = ''RSA'' \<and> jwkToRSA lb k = Ok pub))"
  using assms
proof (induction ks arbitrary: acc)
  case Nil
  then show ?case by simp
next
  case (Cons x ks)
  then obtain k where x: "x = Some k" and rest: "None \<notin> set ks"
    by (cases x) auto
  let ?D = "\<lambda>ks. \<exists>k pub. Some k \<in> set ks \<and> jwk_Kty k = ''RSA'' \<and> jwkToRSA lb k = Ok pub"
  have skip: ?case if "keys_loop lb (x # ks) acc = keys_loop lb ks acc" and "?D (x # ks) = ?D ks"
  proof -
    from Cons.IH [OF rest, of acc] obtain m where "keys_loop lb ks acc = Some m"
      and "dom m = {} \<longleftrightarrow> dom acc = {} \<and> \<not> ?D ks"
      by blast
    with that show ?thesis by (simp del: dom_eq_empty_conv)
  qed
  show ?case
  proof (cases "jwk_Kty k = ''RSA''")
    case False
    with x show ?thesis by (intro skip) auto
  next
    case True
    show ?thesis
    proof (cases "jwkToRSA lb k")
      case (Ok pub)
      from Cons.IH [OF rest, of "acc(jwk_Kid k \<mapsto> pub)"]
      obtain m where m: "keys_loop lb ks (acc(jwk_Kid k \<mapsto> pub)) = Some m"
        and iff: "dom m = {} \<longleftrightarrow> dom (acc(jwk_Kid k \<mapsto> pub)) = {} \<and> \<not> ?D ks"
        by blast
      have "dom (acc(jwk_Kid k \<mapsto> pub)) \<noteq> {}"
        by simp
      with iff have "dom m \<noteq> {}"
        by blast
      moreover note m
      moreover have "?D (x # ks)"
        using x True Ok by auto
      moreover have "keys_loop lb (x # ks) acc = keys_loop lb ks (acc(jwk_Kid k \<mapsto> pub))"
        using x True Ok by simp
      ultimately show ?thesis
        by (simp del: dom_eq_empty_conv)
    next
      case (Fail err)
      with x True show ?thesis by (intro skip) auto
    next
      case Panic
      with jwkToRSA_not_Panic show ?thesis by blast
    qed
  qed
qed

lemma Fetch_without_nil:
  assumes "None \<notin> set (Keys jwks)"
  shows "fst (Fetch lb (Inr (status, jwks)) c) \<noteq> Panic \<and>
    (fst (Fetch lb (Inr (status, jwks)) c) = Ok () \<longleftrightarrow>
       status = 200 \<and>
       (\<exists>k pub. Some k \<in> set (Keys jwks) \<and> jwk_Kty k = ''RSA'' \<and> jwkToRSA lb k = Ok pub))"
proof -
  let ?D = "\<exists>k pub. Some k \<in> set (Keys jwks) \<and> jwk_Kty k = ''RSA'' \<and> jwkToRSA lb k = Ok pub"
  obtain m where m: "keys_loop lb (Keys jwks) Map.empty = Some m"
    and d: "dom m = {} \<longleftrightarrow> \<not> ?D"
    using keys_loop_without_nil [OF assms, of lb Map.empty] by auto
  have "fst (Fetch lb (Inr (status, jwks)) c) =
      (if status \<noteq> 200
       then Fail (New (''JWKS fetch: expected '' @ Itoa 200 @ '', got '' @ Itoa status))
       else if dom m = {} then Fail (New ''JWKS fetch: empty key set'') else Ok ())"
    using m by (simp add: Fetch_def Let_def StatusOK_def del: dom_eq_empty_conv)
  with d show ?thesis
    by (cases "status = 200"; cases "dom m = {}") (auto simp del: dom_eq_empty_conv)
qed

lemma Fetch_not_OK:
  "(\<exists>m. get = Inl m) \<or> (\<exists>status jwks. get = Inr (status, jwks) \<and> status \<noteq> 200) \<Longrightarrow>
   \<exists>err. fst (Fetch lb get c) = Fail err"
  by (auto simp: Fetch_def Let_def StatusOK_def)

text \<open>
  Claim C6. The loop skips a key that is not RSA or that fails to decode, but it reads
  \<^verbatim>\<open>jwk.Kty\<close> without a nil check: on a response of status 200 whose key array is
  a key that decodes followed by \<^verbatim>\<open>null\<close>, the fetch panics instead of succeeding.
\<close>

theorem fetch_panics_on_null_key:
  "jwkToRSA example_lib example_jwk = Ok \<lparr>pub_N = 11630369, pub_E = 65537\<rparr> \<and>
   Fetch example_lib (Inr (200, \<lparr>Keys = [Some example_jwk, None]\<rparr>)) NewJWKS =
     (Panic, \<lparr>keys = Map.empty, calls = [FetchCall]\<rparr>)"
  by (simp add: Fetch_def StatusOK_def NewJWKS_def example_jwk_decodes)

subsection \<open>Key resolution\<close>

lemma Fetch_calls: "calls (snd (Fetch lb get c)) = calls c @ [FetchCall]"
  by (auto simp: Fetch_def Let_def split: sum.splits option.splits prod.splits)

text \<open>
  Claim C1, as the code has it. For a token that passes the format check, whose header
  decodes and names the algorithm RS256, and whose key id is not in the cache, the
  assertion calls \<open>Fetch\<close> exactly once, after the one lookup that missed. If the
  fetch returns an error, the assertion fails with the Unauthorized error that carries
  the message of that error, and the lookup is not repeated. If the fetch succeeds, the
  lookup is repeated exactly once, and if the key id is still missing the assertion
  fails with the Unauthorized error "JWKS kid is not found".
\<close>

theorem refetch_once_on_miss:
  assumes "Split jwt (CHR ''.'') = [ehead, eclaims, esig]"
    and "DecodeString lb ehead = Inr jhead"
    and "UnmarshalHeader lb jhead = Inr head"
    and "head_Alg head = ''RS256''"
    and "keys jwks (head_Kid head) = None"
  shows
    "count_list
       (calls (snd (JWTRS256Assert lb get now jwt jwks issuer tokenUse clientIDs roles)))
       FetchCall = Suc (count_list (calls jwks) FetchCall) \<and>
     (\<forall>err j. Fetch lb get (snd (Key jwks (head_Kid head))) = (Fail err, j) \<longrightarrow>
        JWTRS256Assert lb get now jwt jwks issuer tokenUse clientIDs roles =
          (Fail (Unautorized (Error err)), j) \<and>
        calls j = calls jwks @ [KeyCall (head_Kid head), FetchCall]) \<and>
     (\<forall>j. Fetch lb get (snd (Key jwks (head_Kid head))) = (Ok (), j) \<longrightarrow>
        calls (snd (JWTRS256Assert lb get now jwt jwks issuer tokenUse clientIDs roles)) =
          calls jwks @ [KeyCall (head_Kid head), FetchCall, KeyCall (head_Kid head)] \<and>
        (keys j (head_Kid head) = None \<longrightarrow>
           fst (JWTRS256Assert lb get now jwt jwks issuer tokenUse clientIDs roles) =
             Fail (Unautorized ''JWKS kid is not found'')))"
proof -
  let ?kid = "head_Kid head"
  let ?j1 = "jwks\<lparr>calls := calls jwks @ [KeyCall ?kid]\<rparr>"
  let ?A = "JWTRS256Assert lb get now jwt jwks issuer tokenUse clientIDs roles"
  have key1: "Key jwks ?kid = (None, ?j1)"
    using assms(5) by (simp add: Key_def)
  have snd1: "snd (Key jwks ?kid) = ?j1"
    by (simp add: Key_def)
  have j1: "calls ?j1 = calls jwks @ [KeyCall ?kid]"
    by simp
  obtain r j2 where F: "Fetch lb get ?j1 = (r, j2)"
    by (cases "Fetch lb get ?j1")
  have j2: "calls j2 = calls jwks @ [KeyCall ?kid, FetchCall]"
    using Fetch_calls [of lb get ?j1] F j1 by simp
  have fail: "?A = (Fail (Unautorized (Error err)), j2)" if "r = Fail err" for err
    using assms(1-4) key1 F that by (simp add: JWTRS256Assert_def)
  have panic: "?A = (Panic, j2)" if "r = Panic"
    using assms(1-4) key1 F that by (simp add: JWTRS256Assert_def)
  have ok_calls: "calls (snd ?A) = calls j2 @ [KeyCall ?kid]" if "r = Ok ()"
    using assms(1-4) key1 F that
    by (simp add: JWTRS256Assert_def Key_def Let_def
        split: option.splits sum.splits)
  have ok_missing: "fst ?A = Fail (Unautorized ''JWKS kid is not found'')"
    if "r = Ok ()" and "keys j2 ?kid = None"
    using assms(1-4) key1 F that by (simp add: JWTRS256Assert_def Key_def)
  have count: "count_list (calls (snd ?A)) FetchCall = Suc (count_list (calls jwks) FetchCall)"
  proof (cases r)
    case (Ok u)
    with ok_calls j2 show ?thesis by simp
  next
    case (Fail err)
    with fail j2 show ?thesis by simp
  next
    case Panic
    with panic j2 show ?thesis by simp
  qed
  show ?thesis
    unfolding snd1 using count fail ok_calls ok_missing j2 F by auto
qed

theorem refetch_once_on_miss_witness:
  "calls (snd (JWTRS256Assert example_lib (Inr (200, \<lparr>Keys = [Some example_jwk]\<rparr>))
       (Unix 1000 0) example_jwt NewJWKS
       ''https://issuer.example'' ''access'' [''client-1''] [])) =
     [KeyCall ''k1'', FetchCall, KeyCall ''k1''] \<and>
   fst (JWTRS256Assert example_lib
       (Inr (200, \<lparr>Keys = [Some (example_jwk\<lparr>jwk_Kid := ''k2''\<rparr>)]\<rparr>))
       (Unix 1000 0) example_jwt NewJWKS
       ''https://issuer.example'' ''access'' [''client-1''] []) =
     Fail (Unautorized ''JWKS kid is not found'') \<and>
   JWTRS256Assert example_lib (Inl ''connection refused'')
       (Unix 1000 0) example_jwt NewJWKS
       ''https://issuer.example'' ''access'' [''client-1''] [] =
     (Fail (Unautorized ''connection refused''),
      \<lparr>keys = Map.empty, calls = [KeyCall ''k1'', FetchCall]\<rparr>)"
proof -
  let ?head = "\<lparr>head_Alg = ''RS256'', head_Typ = ''JWT'', head_Kid = ''k1''\<rparr>"
  obtain jhead where d: "DecodeString example_lib example_header64 = Inr jhead"
    and u: "UnmarshalHeader example_lib jhead = Inr ?head"
    using example_header_rs256 by blast
  have alg: "head_Alg ?head = ''RS256''" by simp
  have miss: "keys NewJWKS (head_Kid ?head) = None" by (simp add: NewJWKS_def)
  note T = refetch_once_on_miss [OF example_jwt_split d u alg miss,
      where now = "Unix 1000 0" and issuer = "''https://issuer.example''"
        and tokenUse = "''access''" and clientIDs = "[''client-1'']" and roles = "[]"]
  have a: "calls (snd (JWTRS256Assert example_lib (Inr (200, \<lparr>Keys = [Some example_jwk]\<rparr>))
       (Unix 1000 0) example_jwt NewJWKS
       ''https://issuer.example'' ''access'' [''client-1''] [])) =
     [KeyCall ''k1'', FetchCall, KeyCall ''k1'']"
    using T [where get = "Inr (200, \<lparr>Keys = [Some example_jwk]\<rparr>)"] example_fetch_after_miss
    by (simp add: NewJWKS_def)
  have b: "fst (JWTRS256Assert example_lib
       (Inr (200, \<lparr>Keys = [Some (example_jwk\<lparr>jwk_Kid := ''k2''\<rparr>)]\<rparr>))
       (Unix 1000 0) example_jwt NewJWKS
       ''https://issuer.example'' ''access'' [''client-1''] []) =
     Fail (Unautorized ''JWKS kid is not found'')"
    using T [where get = "Inr (200, \<lparr>Keys = [Some (example_jwk\<lparr>jwk_Kid := ''k2''\<rparr>)]\<rparr>)"]
      example_fetch_other_kid
    by simp
  have c: "JWTRS256Assert example_lib (Inl ''connection refused'')
       (Unix 1000 0) example_jwt NewJWKS
       ''https://issuer.example'' ''access'' [''client-1''] [] =
     (Fail (Unautorized ''connection refused''),
      \<lparr>keys = Map.empty, calls = [KeyCall ''k1'', FetchCall]\<rparr>)"
    using T [where get = "Inl ''connection refused''"] example_fetch_refused
    by simp
  from a b c show ?thesis by simp
qed

text \<open>
  The claim as written fails on two tokens whose key id k1 is not in the cache. The
  header of the first names the algorithm HS256: the assertion fails before any lookup,
  and no fetch is made. The second is an RS256 token and the GET fails: the calls are
  one lookup and one fetch, and the lookup is not retried.
\<close>

theorem no_fetch_for_other_algorithm:
  "keys NewJWKS ''k1'' = None \<and>
   JWTRS256Assert example_lib (Inr (200, \<lparr>Keys = [Some example_jwk]\<rparr>))
       (Unix 1000 0) example_jwt_hs256 NewJWKS
       ''https://issuer.example'' ''access'' [''client-1''] [] =
     (Fail (Unautorized ''unsupported JWT signature algorithm''),
      \<lparr>keys = Map.empty, calls = []\<rparr>) \<and>
   calls (snd (JWTRS256Assert example_lib (Inl ''connection refused'')
       (Unix 1000 0) example_jwt NewJWKS
       ''https://issuer.example'' ''access'' [''client-1''] [])) =
     [KeyCall ''k1'', FetchCall]"
proof -
  obtain jhead where d: "DecodeString example_lib
      ''eyJhbGciOiJIUzI1NiIsInR5cCI6IkpXVCIsImtpZCI6ImsxIn0'' = Inr jhead"
    and u: "UnmarshalHeader example_lib jhead =
      Inr \<lparr>head_Alg = ''HS256'', head_Typ = ''JWT'', head_Kid = ''k1''\<rparr>"
    using example_header_hs256 by blast
  obtain jhead' where d': "DecodeString example_lib example_header64 = Inr jhead'"
    and u': "UnmarshalHeader example_lib jhead' =
      Inr \<lparr>head_Alg = ''RS256'', head_Typ = ''JWT'', head_Kid = ''k1''\<rparr>"
    using example_header_rs256 by blast
  have "JWTRS256Assert example_lib (Inr (200, \<lparr>Keys = [Some example_jwk]\<rparr>))
       (Unix 1000 0) example_jwt_hs256 NewJWKS
       ''https://issuer.example'' ''access'' [''client-1''] [] =
     (Fail (Unautorized ''unsupported JWT signature algorithm''),
      \<lparr>keys = Map.empty, calls = []\<rparr>)"
    by (simp add: JWTRS256Assert_def example_jwt_hs256_split d u NewJWKS_def)
  moreover
  have "calls (snd (JWTRS256Assert example_lib (Inl ''connection refused'')
       (Unix 1000 0) example_jwt NewJWKS
       ''https://issuer.example'' ''access'' [''client-1''] [])) =
     [KeyCall ''k1'', FetchCall]"
    by (simp add: JWTRS256Assert_def example_jwt_split d' u' Key_def Fetch_def NewJWKS_def)
  ultimately show ?thesis
    by (simp add: NewJWKS_def)
qed

subsection \<open>Signature\<close>

lemma roles_loop_not_Unautorized: "roles_loop rs groups \<noteq> Some (Unautorized m)"
  by (induction groups) (auto split: option.splits)

lemma jwtClaimsCheck_Unautorized:
  assumes "jwtClaimsCheck now claims issuer tokenUse clientIDs roles = Some (Unautorized m)"
  shows "m \<in> {''invalid JWT issuer'', ''invalid JWT use'', ''expired JWT'',
    ''invalid client ID'', ''invalid token use''}"
  using assms roles_loop_not_Unautorized
  by (auto simp: jwtClaimsCheck_def split: if_splits option.splits)

text \<open>
  Claim C8. For a token split into the segments header64, claims64 and signature64
  that reaches the signature check (the header decodes and names RS256, the key is
  found in the cache or after the refetch, the signature segment decodes), the check
  is made on the digest of the bytes of header64, a period and claims64, the segments
  as they stand in the token: whatever the digest and the RSA check compute, the
  assertion fails with "invalid JWT signature" exactly when the RSA check refuses that
  digest. The decoded header and claims do not enter it.
\<close>

theorem signing_input_is_encoded_segments:
  assumes "Split jwt (CHR ''.'') = [header64, claims64, signature64]"
    and "DecodeString lb header64 = Inr jhead"
    and "UnmarshalHeader lb jhead = Inr head"
    and "head_Alg head = ''RS256''"
    and "keys jwks (head_Kid head) = Some pub \<or>
         (keys jwks (head_Kid head) = None \<and>
          (\<exists>j. Fetch lb get (snd (Key jwks (head_Kid head))) = (Ok (), j) \<and>
               keys j (head_Kid head) = Some pub))"
    and "DecodeString lb signature64 = Inr sig"
  shows "fst (JWTRS256Assert lb get now jwt jwks issuer tokenUse clientIDs roles) =
           Fail (Unautorized ''invalid JWT signature'') \<longleftrightarrow>
         \<not> VerifyPKCS1v15 lb pub (Sum256 lb (bytes_of (header64 @ ''.'' @ claims64))) sig"
proof -
  let ?kid = "head_Kid head"
  let ?j1 = "jwks\<lparr>calls := calls jwks @ [KeyCall ?kid]\<rparr>"
  let ?A = "JWTRS256Assert lb get now jwt jwks issuer tokenUse clientIDs roles"
  let ?V = "VerifyPKCS1v15 lb pub (Sum256 lb (bytes_of (header64 @ ''.'' @ claims64))) sig"
  have snd1: "snd (Key jwks ?kid) = ?j1"
    by (simp add: Key_def)
  have claims: "jwtClaimsCheck now c issuer tokenUse clientIDs roles \<noteq>
      Some (Unautorized ''invalid JWT signature'')" for c
    using jwtClaimsCheck_Unautorized [of now c issuer tokenUse clientIDs roles] by auto
  from assms(5) show ?thesis
  proof
    assume hit: "keys jwks ?kid = Some pub"
    show ?thesis
      using assms(1-4,6) hit claims
      by (auto simp: JWTRS256Assert_def Key_def Let_def split: sum.splits option.splits)
  next
    assume "keys jwks ?kid = None \<and>
      (\<exists>j. Fetch lb get (snd (Key jwks ?kid)) = (Ok (), j) \<and> keys j ?kid = Some pub)"
    then obtain j where miss: "keys jwks ?kid = None"
      and F: "Fetch lb get ?j1 = (Ok (), j)" and found: "keys j ?kid = Some pub"
      unfolding snd1 by blast
    show ?thesis
      using assms(1-4,6) miss F found claims
      by (auto simp: JWTRS256Assert_def Key_def Let_def split: sum.splits option.splits)
  qed
qed

theorem signing_input_is_encoded_segments_witness:
  "fst (JWTRS256Assert example_lib (Inl ''connection refused'') (Unix 1000 0)
          example_jwt
          \<lparr>keys = [''k1'' \<mapsto> \<lparr>pub_N = 11630369, pub_E = 65537\<rparr>], calls = []\<rparr>
          ''https://issuer.example'' ''access'' [''client-1''] []) \<noteq>
     Fail (Unautorized ''invalid JWT signature'') \<and>
   fst (JWTRS256Assert example_lib (Inl ''connection refused'') (Unix 1000 0)
          (example_header64 @ ''.'' @ example_claims64 @ ''.vw'')
          \<lparr>keys = [''k1'' \<mapsto> \<lparr>pub_N = 11630369, pub_E = 65537\<rparr>], calls = []\<rparr>
          ''https://issuer.example'' ''access'' [''client-1''] []) =
     Fail (Unautorized ''invalid JWT signature'')"
proof -
  let ?head = "\<lparr>head_Alg = ''RS256'', head_Typ = ''JWT'', head_Kid = ''k1''\<rparr>"
  let ?pub = "\<lparr>pub_N = 11630369, pub_E = 65537\<rparr>"
  let ?jwks = "\<lparr>keys = [''k1'' \<mapsto> ?pub], calls = []\<rparr>"
  obtain jhead where d: "DecodeString example_lib example_header64 = Inr jhead"
    and u: "UnmarshalHeader example_lib jhead = Inr ?head"
    using example_header_rs256 by blast
  have alg: "head_Alg ?head = ''RS256''" by simp
  have hit: "keys ?jwks (head_Kid ?head) = Some ?pub \<or>
      (keys ?jwks (head_Kid ?head) = None \<and>
       (\<exists>j. Fetch example_lib (Inl ''connection refused'') (snd (Key ?jwks (head_Kid ?head))) =
              (Ok (), j) \<and> keys j (head_Kid ?head) = Some ?pub))"
    by simp
  have sp: "Split (example_header64 @ ''.'' @ example_claims64 @ ''.vw'') (CHR ''.'') =
      [example_header64, example_claims64, ''vw'']"
    by (simp add: example_header64_def example_claims64_def)
  have vw: "DecodeString example_lib ''vw'' = Inr [191]"
    by (simp add: example_lib_def RawURLDecodeString_def decodeMap_def)
  have bad: "\<not> VerifyPKCS1v15 example_lib ?pub [190] [191]"
    by (simp add: example_lib_def)
  from signing_input_is_encoded_segments
      [OF example_jwt_split d u alg hit example_signature [THEN conjunct1]]
    example_signature
  have a: "fst (JWTRS256Assert example_lib (Inl ''connection refused'')
      (Unix 1000 0) example_jwt ?jwks
      ''https://issuer.example'' ''access'' [''client-1''] []) \<noteq>
     Fail (Unautorized ''invalid JWT signature'')"
    by simp
  from signing_input_is_encoded_segments [OF sp d u alg hit vw] example_signature bad
  have b: "fst (JWTRS256Assert example_lib (Inl ''connection refused'')
      (Unix 1000 0) (example_header64 @ ''.'' @ example_claims64 @ ''.vw'') ?jwks
      ''https://issuer.example'' ''access'' [''client-1''] []) =
     Fail (Unautorized ''invalid JWT signature'')"
    by simp
  from a b show ?thesis by simp
qed

subsection \<open>Format check\<close>

lemma Split_not_Nil: "Split s sep \<noteq> []"
  by (induction s) (auto split: list.splits)

lemma length_Split: "length (Split s sep) = Suc (count_list s sep)"
  by (induction s) (auto simp: Split_not_Nil split: list.splits)

lemma Join_Split: "Join (Split s sep) [sep] = s"
proof (induction s)
  case Nil
  then show ?case by simp
next
  case (Cons c cs)
  obtain p ps where sp: "Split cs sep = p # ps"
    using Split_not_Nil [of cs sep] by (cases "Split cs sep") auto
  show ?case
  proof (cases "c = sep")
    case True
    with Cons sp show ?thesis by simp
  next
    case False
    with Cons sp show ?thesis by (cases ps) auto
  qed
qed

lemma Split_no_sep: "p \<in> set (Split s sep) \<Longrightarrow> sep \<notin> set p"
  by (induction s arbitrary: p) (auto split: if_splits list.splits)

lemma three_parts: "length xs = 3 \<longleftrightarrow> (\<exists>a b c. xs = [a, b, c])"
  by (cases xs; cases "tl xs"; cases "tl (tl xs)") auto

lemma Fetch_error_message:
  assumes "fst (Fetch lb get c) = Fail err" and "Error err = ''invalid JWT format''"
  shows "get = Inl ''invalid JWT format''"
  using assms
  by (auto simp: Fetch_def Let_def split: sum.splits option.splits prod.splits if_splits)

text \<open>
  Claim C3, as the code has it. The token is split at every period, so the number of
  segments is the number of periods plus one, and segments may be empty. The claims
  decoder fails with the format error exactly when the number of segments is not three.
  The assertion fails with the format error, leaving the cache untouched, when the
  number of segments is not three; with three segments it does not fail with the format
  error, unless the HTTP client reports an error with that very message, which the
  assertion passes on. Whether a segment is empty plays no part: a token of three
  segments, empty or not, is not rejected at the format-check stage.
\<close>

theorem format_error_iff_not_three_segments:
  "length (Split jwt (CHR ''.'')) = Suc (count_list jwt (CHR ''.'')) \<and>
   (JWTDecodeClaims lb jwt = Fail (New ''invalid JWT format'') \<longleftrightarrow>
      length (Split jwt (CHR ''.'')) \<noteq> 3) \<and>
   (length (Split jwt (CHR ''.'')) \<noteq> 3 \<longrightarrow>
      JWTRS256Assert lb get now jwt jwks issuer tokenUse clientIDs roles =
        (Fail (Unautorized ''invalid JWT format''), jwks)) \<and>
   (length (Split jwt (CHR ''.'')) = 3 \<and> get \<noteq> Inl ''invalid JWT format'' \<longrightarrow>
      fst (JWTRS256Assert lb get now jwt jwks issuer tokenUse clientIDs roles) \<noteq>
        Fail (Unautorized ''invalid JWT format''))"
proof -
  let ?parts = "Split jwt (CHR ''.'')"
  let ?A = "JWTRS256Assert lb get now jwt jwks issuer tokenUse clientIDs roles"
  have not3: "?A = (Fail (Unautorized ''invalid JWT format''), jwks)"
    and not3': "JWTDecodeClaims lb jwt = Fail (New ''invalid JWT format'')"
    if "length ?parts \<noteq> 3"
    using that
    by (auto simp: JWTRS256Assert_def JWTDecodeClaims_def three_parts split: list.splits)
  have is3': "JWTDecodeClaims lb jwt \<noteq> Fail (New ''invalid JWT format'')"
    if "length ?parts = 3"
    using that
    by (auto simp: JWTDecodeClaims_def three_parts split: sum.splits)
  have is3: "fst ?A \<noteq> Fail (Unautorized ''invalid JWT format'')"
    if "length ?parts = 3" and g: "get \<noteq> Inl ''invalid JWT format''"
  proof -
    from that(1) obtain a b c where sp: "?parts = [a, b, c]"
      unfolding three_parts by blast
    have claims: "jwtClaimsCheck now cl issuer tokenUse clientIDs roles \<noteq>
        Some (Unautorized ''invalid JWT format'')" for cl
      using jwtClaimsCheck_Unautorized [of now cl issuer tokenUse clientIDs roles] by auto
    have fetch: "Fetch lb get j \<noteq> (Fail err, j')" if "Error err = ''invalid JWT format''"
      for err j j'
      using Fetch_error_message [of lb get j err] g that by auto
    show ?thesis
      using sp claims fetch
      by (auto simp: JWTRS256Assert_def Key_def Let_def
          split: sum.splits option.splits res.splits prod.splits)
  qed
  show ?thesis
    using not3 not3' is3 is3' length_Split [of jwt "CHR ''.''"] by blast
qed

theorem format_error_iff_not_three_segments_witness:
  "JWTRS256Assert example_lib (Inl ''connection refused'') (Unix 1000 0)
       ''a.b'' NewJWKS ''https://issuer.example'' ''access'' [''client-1''] [] =
     (Fail (Unautorized ''invalid JWT format''), NewJWKS) \<and>
   JWTDecodeClaims example_lib ''a.b'' = Fail (New ''invalid JWT format'') \<and>
   fst (JWTRS256Assert example_lib (Inl ''connection refused'') (Unix 1000 0)
       example_jwt NewJWKS ''https://issuer.example'' ''access'' [''client-1''] []) \<noteq>
     Fail (Unautorized ''invalid JWT format'') \<and>
   JWTDecodeClaims example_lib example_jwt \<noteq> Fail (New ''invalid JWT format'')"
proof -
  have two: "length (Split ''a.b'' (CHR ''.'')) \<noteq> 3"
    by simp
  have three: "length (Split example_jwt (CHR ''.'')) = 3"
    by (simp add: example_jwt_split)
  have get: "(Inl ''connection refused'' :: response) \<noteq> Inl ''invalid JWT format''"
    by simp
  note T = format_error_iff_not_three_segments [where lb = example_lib
      and get = "Inl ''connection refused''" and now = "Unix 1000 0"
      and jwks = NewJWKS and issuer = "''https://issuer.example''" and tokenUse = "''access''"
      and clientIDs = "[''client-1'']" and roles = "[]"]
  from T [where jwt = "''a.b''"] two T [where jwt = example_jwt] three get
  show ?thesis by blast
qed

text \<open>
  The claim as written fails on the token \<^verbatim>\<open>a..c\<close>: it has three segments, the
  second one empty, and passes the format check. With the library of the examples the
  assertion refuses this token at header decoding, because \<^verbatim>\<open>a\<close> is not base64url,
  and the claims decoder refuses it at JSON parsing of the empty claims segment, neither
  with the format error.
\<close>

theorem empty_segment_passes_format_check:
  "Split ''a..c'' (CHR ''.'') = [''a'', [], ''c''] \<and>
   JWTRS256Assert example_lib (Inl ''connection refused'') (Unix 1000 0)
       ''a..c'' NewJWKS ''https://issuer.example'' ''access'' [''client-1''] [] =
     (Fail (Unautorized ''invalid JWT header encoding''), NewJWKS) \<and>
   JWTDecodeClaims example_lib ''a..c'' = Fail (Lib ''unexpected end of JSON input'')"
proof -
  have a: "DecodeString example_lib ''a'' = Inl ''illegal base64 data''"
    by (simp add: example_lib_def RawURLDecodeString_def decodeMap_def)
  have e: "DecodeString example_lib [] = Inr []"
    by (simp add: example_lib_def RawURLDecodeString_def)
  have u: "UnmarshalClaims example_lib [] = Inl ''unexpected end of JSON input''"
    by (simp add: example_lib_def example_claims_def bytes_of_def)
  show ?thesis
    by (simp add: JWTRS256Assert_def JWTDecodeClaims_def a e u)
qed

text \<open>
  A token with empty segments is not refused by every later stage either: the claims
  decoder reads the middle segment only, and accepts the token \<^verbatim>\<open>.e30.\<close>, whose
  header and signature are empty and whose claims are the empty JSON object.
\<close>

lemma JWTDecodeClaims_middle_segment:
  "Split jwt (CHR ''.'') = [p0, p1, p2] \<Longrightarrow>
   JWTDecodeClaims lb jwt =
     (case DecodeString lb p1 of
        Inl m \<Rightarrow> Fail (Lib m)
      | Inr jstr \<Rightarrow>
          (case UnmarshalClaims lb jstr of
             Inl m \<Rightarrow> Fail (Lib m)
           | Inr claims \<Rightarrow> Ok claims))"
  by (simp add: JWTDecodeClaims_def)

lemma empty_outer_segments_accepted:
  "JWTDecodeClaims example_lib ''.e30.'' =
     Ok \<lparr>Iss = [], TokenUse = [], Exp = 0, ClientID = [], Roles = [], Aud = [], Email = []\<rparr>"
proof -
  have d: "DecodeString example_lib ''e30'' = Inr (bytes_of ''{}'')"
    by (simp add: example_lib_def RawURLDecodeString_def decodeMap_def bytes_of_def)
  have u: "UnmarshalClaims example_lib (bytes_of ''{}'') =
      Inr \<lparr>Iss = [], TokenUse = [], Exp = 0, ClientID = [], Roles = [], Aud = [], Email = []\<rparr>"
    by (simp add: example_lib_def example_claims_def bytes_of_def)
  show ?thesis
    by (simp add: JWTDecodeClaims_def d u)
qed

end
